theory Spec2Isabelle
  imports Complex_Main
begin

section \<open>Data model (src/types/index.ts)\<close>

text \<open>
  A recycling point as the interface \<^verbatim>\<open>RecyclingPoint\<close> declares it. The fields carry the
  prefix \<open>pt_\<close> because \<open>id\<close>, \<open>x\<close> and \<open>y\<close> would otherwise become global constants.
  JavaScript numbers are modelled as reals: the controller only stores, copies and compares
  coordinates, so no rounding is involved there.
\<close>

type_synonym RecyclingCategoryEnum = string

record RecyclingPoint =
  pt_id :: string
  pt_name :: string
  pt_category :: RecyclingCategoryEnum
  pt_x :: real
  pt_y :: real
  pt_description :: string

text \<open>\<^verbatim>\<open>Omit<RecyclingPoint, 'id'>\<close>: the payload of an insert.\<close>

record NewPointData =
  np_name :: string
  np_category :: RecyclingCategoryEnum
  np_x :: real
  np_y :: real
  np_description :: string

text \<open>\<^verbatim>\<open>Partial<Omit<RecyclingPoint, 'id'>>\<close>: the payload of a partial update; an absent key
  is \<open>None\<close>.\<close>

record PointUpdates =
  upd_name :: "string option"
  upd_category :: "RecyclingCategoryEnum option"
  upd_x :: "real option"
  upd_y :: "real option"
  upd_description :: "string option"

definition noUpdates :: PointUpdates where
  "noUpdates = \<lparr>upd_name = None, upd_category = None, upd_x = None, upd_y = None,
                 upd_description = None\<rparr>"

section \<open>Runtime values of stored documents\<close>

text \<open>
  Firestore's \<^verbatim>\<open>DocumentData\<close> is untyped: a field may be missing or hold any value. The
  datatype lists the JavaScript values that \<^verbatim>\<open>||\<close> and \<^verbatim>\<open>typeof\<close> distinguish; \<open>JObject\<close>
  stands for every object (map, array, timestamp, reference), all of which are truthy.
\<close>

datatype js_value =
    JUndefined
  | JNull
  | JBoolean bool
  | JNumber real
  | JNaN
  | JInfinity bool
  | JString string
  | JObject

fun truthy :: "js_value \<Rightarrow> bool" where
  "truthy JUndefined = False"
| "truthy JNull = False"
| "truthy (JBoolean b) = b"
| "truthy (JNumber r) = (r \<noteq> 0)"
| "truthy JNaN = False"
| "truthy (JInfinity _) = True"
| "truthy (JString s) = (s \<noteq> [])"
| "truthy JObject = True"

text \<open>\<^verbatim>\<open>typeof v === 'number'\<close>\<close>

fun typeofNumber :: "js_value \<Rightarrow> bool" where
  "typeofNumber (JNumber _) = True"
| "typeofNumber JNaN = True"
| "typeofNumber (JInfinity _) = True"
| "typeofNumber _ = False"

text \<open>\<^verbatim>\<open>a || b\<close>\<close>

definition jsOr :: "js_value \<Rightarrow> js_value \<Rightarrow> js_value" where
  "jsOr a b = (if truthy a then a else b)"

record QueryDocumentSnapshot =
  doc_id :: string
  doc_data :: "(string \<times> js_value) list"

text \<open>Reading a property of the data object: a missing key reads as \<^verbatim>\<open>undefined\<close>.\<close>

definition field :: "QueryDocumentSnapshot \<Rightarrow> string \<Rightarrow> js_value" where
  "field docSnap k = (case map_of (doc_data docSnap) k of None \<Rightarrow> JUndefined | Some v \<Rightarrow> v)"

text \<open>
  The object \<^verbatim>\<open>mapDocToRecyclingPoint\<close> builds. The type assertion \<^verbatim>\<open>as RecyclingPoint\<close>
  checks nothing at run time, so the fields keep the values the expressions produce.
\<close>

record MappedPoint =
  mp_id :: string
  mp_name :: js_value
  mp_category :: js_value
  mp_x :: js_value
  mp_y :: js_value
  mp_description :: js_value

section \<open>The service (src/services/recyclingPointsService.ts)\<close>

text \<open>
  The Firestore SDK is external. Its answers are parameters of the model: whether the handle
  \<^verbatim>\<open>db\<close> was initialised, and what each SDK call settles with.
\<close>

datatype 'a promise = Resolved 'a | Rejected string

datatype service_error = DbNotInitialized | OperationFailed string

record Firestore =
  db :: bool
  getDocs :: "QueryDocumentSnapshot list promise"
  addDoc :: "NewPointData \<Rightarrow> string promise"
  updateDoc :: "string \<Rightarrow> PointUpdates \<Rightarrow> unit promise"
  deleteDoc :: "string \<Rightarrow> unit promise"

definition mapDocToRecyclingPoint :: "QueryDocumentSnapshot \<Rightarrow> MappedPoint" where
  "mapDocToRecyclingPoint docSnap =
     \<lparr>mp_id = doc_id docSnap,
      mp_name = jsOr (field docSnap ''name'') (JString ''Unnamed Point''),
      mp_category = jsOr (field docSnap ''category'') (JString ''unknown''),
      mp_x = (if typeofNumber (field docSnap ''x'') then field docSnap ''x'' else JNumber 0),
      mp_y = (if typeofNumber (field docSnap ''y'') then field docSnap ''y'' else JNumber 0),
      mp_description = jsOr (field docSnap ''description'') (JString '''')\<rparr>"

definition getRecyclingPointsFromDB :: "Firestore \<Rightarrow> service_error + MappedPoint list" where
  "getRecyclingPointsFromDB fs =
     (if \<not> db fs then Inl DbNotInitialized
      else case getDocs fs of
             Resolved docs \<Rightarrow> Inr (map mapDocToRecyclingPoint docs)
           | Rejected msg \<Rightarrow> Inl (OperationFailed msg))"

definition addRecyclingPointToDB :: "Firestore \<Rightarrow> NewPointData \<Rightarrow> service_error + RecyclingPoint" where
  "addRecyclingPointToDB fs pointData =
     (if \<not> db fs then Inl DbNotInitialized
      else case addDoc fs pointData of
             Resolved docRefId \<Rightarrow>
               Inr \<lparr>pt_id = docRefId, pt_name = np_name pointData,
                    pt_category = np_category pointData, pt_x = np_x pointData,
                    pt_y = np_y pointData, pt_description = np_description pointData\<rparr>
           | Rejected msg \<Rightarrow> Inl (OperationFailed msg))"

definition updateRecyclingPointInDB :: "Firestore \<Rightarrow> string \<Rightarrow> PointUpdates \<Rightarrow> service_error + unit" where
  "updateRecyclingPointInDB fs pointId updates =
     (if \<not> db fs then Inl DbNotInitialized
      else case updateDoc fs pointId updates of
             Resolved u \<Rightarrow> Inr u
           | Rejected msg \<Rightarrow> Inl (OperationFailed msg))"

definition deleteRecyclingPointFromDB :: "Firestore \<Rightarrow> string \<Rightarrow> service_error + unit" where
  "deleteRecyclingPointFromDB fs pointId =
     (if \<not> db fs then Inl DbNotInitialized
      else case deleteDoc fs pointId of
             Resolved u \<Rightarrow> Inr u
           | Rejected msg \<Rightarrow> Inl (OperationFailed msg))"

section \<open>The controller state (HomePage)\<close>

text \<open>
  One field per \<^verbatim>\<open>useState\<close> of the page that a handler reads or writes. Toasts and console
  output are notifications only and are left out; \<open>error\<close> keeps the failure of the initial
  fetch instead of the message text built from it.
\<close>

record HomePage =
  allPoints :: "RecyclingPoint list"
  selectedCategories :: "RecyclingCategoryEnum list"
  selectedPoint :: "RecyclingPoint option"
  isClient :: bool
  editingPointId :: "string option"
  isSelectingLocation :: bool
  isAddingNewPointMode :: bool
  categoryForNewPoint :: RecyclingCategoryEnum
  isLoading :: bool
  error :: "service_error option"

text \<open>The ids of \<^verbatim>\<open>INITIAL_CATEGORIES\<close> (src/lib/data.tsx), in order.\<close>

definition INITIAL_CATEGORIES :: "RecyclingCategoryEnum list" where
  "INITIAL_CATEGORIES = [''plastic'', ''paper'', ''electronics'', ''glass'', ''metal'', ''organic'']"

definition initialState :: HomePage where
  "initialState =
     \<lparr>allPoints = [], selectedCategories = [], selectedPoint = None, isClient = False,
      editingPointId = None, isSelectingLocation = False, isAddingNewPointMode = False,
      categoryForNewPoint = '''', isLoading = True, error = None\<rparr>"

text \<open>Truthiness of a \<^verbatim>\<open>string | null\<close>: \<^verbatim>\<open>null\<close> and the empty string are falsy.\<close>

fun truthyId :: "string option \<Rightarrow> bool" where
  "truthyId None = False"
| "truthyId (Some i) = (i \<noteq> [])"

text \<open>The calls a handler makes to the service, in order.\<close>

datatype store_call =
    AddPoint NewPointData
  | UpdatePoint string PointUpdates
  | DeletePoint string

text \<open>\<^verbatim>\<open>allPoints.find(p => p.id === pointId)\<close>\<close>

definition findPoint :: "string \<Rightarrow> RecyclingPoint list \<Rightarrow> RecyclingPoint option" where
  "findPoint pointId ps = find (\<lambda>p. pt_id p = pointId) ps"

text \<open>\<^verbatim>\<open>prevPoints.map(p => (p.id === pointId ? updated : p))\<close>\<close>

definition replacePoint :: "string \<Rightarrow> RecyclingPoint \<Rightarrow> RecyclingPoint list \<Rightarrow> RecyclingPoint list" where
  "replacePoint pointId updated ps = map (\<lambda>p. if pt_id p = pointId then updated else p) ps"

text \<open>\<^verbatim>\<open>selectedPoint && selectedPoint.id === pointId\<close>\<close>

definition isSelected :: "HomePage \<Rightarrow> string \<Rightarrow> bool" where
  "isSelected s pointId = (case selectedPoint s of None \<Rightarrow> False | Some sp \<Rightarrow> pt_id sp = pointId)"

subsection \<open>Handlers\<close>

definition handleCloseDialog :: "HomePage \<Rightarrow> HomePage" where
  "handleCloseDialog s =
     s\<lparr>selectedPoint := None, editingPointId := None, isSelectingLocation := False\<rparr>"

definition handleCategoryChange :: "RecyclingCategoryEnum \<Rightarrow> bool \<Rightarrow> HomePage \<Rightarrow> HomePage" where
  "handleCategoryChange categoryId checked s =
     s\<lparr>selectedCategories :=
         (if checked then selectedCategories s @ [categoryId]
          else filter (\<lambda>i. i \<noteq> categoryId) (selectedCategories s))\<rparr>"

definition handlePointSelect :: "RecyclingPoint \<Rightarrow> HomePage \<Rightarrow> HomePage" where
  "handlePointSelect point s =
     (if isAddingNewPointMode s then s
      else if isSelectingLocation s then s
      else if truthyId (editingPointId s) \<and> editingPointId s \<noteq> Some (pt_id point)
              \<and> \<not> isSelectingLocation s then s
      else s\<lparr>selectedPoint := Some point\<rparr>)"

definition filteredPoints :: "HomePage \<Rightarrow> RecyclingPoint list" where
  "filteredPoints s =
     (if length (selectedCategories s) = 0 then []
      else filter (\<lambda>point. pt_category point \<in> set (selectedCategories s)) (allPoints s))"

definition resetFilters :: "HomePage \<Rightarrow> HomePage" where
  "resetFilters s = s\<lparr>selectedCategories := INITIAL_CATEGORIES\<rparr>"

definition handleToggleEditMode :: "string option \<Rightarrow> HomePage \<Rightarrow> HomePage" where
  "handleToggleEditMode pointIdToToggle s =
     (let s1 = s\<lparr>isAddingNewPointMode := False\<rparr> in
      if editingPointId s = pointIdToToggle \<and> \<not> isSelectingLocation s then
        s1\<lparr>editingPointId := None\<rparr>
      else case pointIdToToggle of
             None \<Rightarrow> s1\<lparr>editingPointId := None, isSelectingLocation := False\<rparr>
           | Some i \<Rightarrow>
               s1\<lparr>editingPointId := Some i, isSelectingLocation := False,
                  selectedPoint := findPoint i (allPoints s)\<rparr>)"

definition handleChangeLocationStart :: "HomePage \<Rightarrow> HomePage" where
  "handleChangeLocationStart s =
     (if truthyId (editingPointId s) then s\<lparr>isSelectingLocation := True\<rparr> else s)"

definition handlePointCoordinateChange ::
    "Firestore \<Rightarrow> string \<Rightarrow> real \<Rightarrow> real \<Rightarrow> HomePage \<Rightarrow> store_call list \<times> HomePage" where
  "handlePointCoordinateChange fs pointId newX newY s =
     (case findPoint pointId (allPoints s) of
        None \<Rightarrow> ([], s)
      | Some pointToUpdate \<Rightarrow>
          (let updatedPointData = pointToUpdate\<lparr>pt_x := newX, pt_y := newY\<rparr>;
               updates = noUpdates\<lparr>upd_x := Some newX, upd_y := Some newY\<rparr>
           in case updateRecyclingPointInDB fs pointId updates of
                Inr _ \<Rightarrow>
                  ([UpdatePoint pointId updates],
                   s\<lparr>allPoints := replacePoint pointId updatedPointData (allPoints s),
                     selectedPoint := Some updatedPointData,
                     editingPointId := Some pointId,
                     isSelectingLocation := False\<rparr>)
              | Inl _ \<Rightarrow>
                  ([UpdatePoint pointId updates],
                   s\<lparr>isSelectingLocation := False,
                     selectedPoint := Some pointToUpdate,
                     editingPointId := Some pointId\<rparr>)))"

definition handlePointCategoryChange ::
    "Firestore \<Rightarrow> string \<Rightarrow> RecyclingCategoryEnum \<Rightarrow> HomePage \<Rightarrow> store_call list \<times> HomePage" where
  "handlePointCategoryChange fs pointId newCategoryId s =
     (case findPoint pointId (allPoints s) of
        None \<Rightarrow> ([], s)
      | Some pointToUpdate \<Rightarrow>
          (let updatedPointData = pointToUpdate\<lparr>pt_category := newCategoryId\<rparr>;
               updates = noUpdates\<lparr>upd_category := Some newCategoryId\<rparr>
           in case updateRecyclingPointInDB fs pointId updates of
                Inr _ \<Rightarrow>
                  ([UpdatePoint pointId updates],
                   (let s1 = s\<lparr>allPoints := replacePoint pointId updatedPointData (allPoints s)\<rparr>
                    in if isSelected s pointId then s1\<lparr>selectedPoint := Some updatedPointData\<rparr>
                       else s1))
              | Inl _ \<Rightarrow> ([UpdatePoint pointId updates], s)))"

definition handlePointNameChange ::
    "Firestore \<Rightarrow> string \<Rightarrow> string \<Rightarrow> HomePage \<Rightarrow> store_call list \<times> HomePage" where
  "handlePointNameChange fs pointId newName s =
     (case findPoint pointId (allPoints s) of
        None \<Rightarrow> ([], s)
      | Some pointToUpdate \<Rightarrow>
          (let updatedNameData = pointToUpdate\<lparr>pt_name := newName\<rparr>;
               updates = noUpdates\<lparr>upd_name := Some newName\<rparr>
           in case updateRecyclingPointInDB fs pointId updates of
                Inr _ \<Rightarrow>
                  ([UpdatePoint pointId updates],
                   (let s1 = s\<lparr>allPoints := replacePoint pointId updatedNameData (allPoints s)\<rparr>
                    in if isSelected s pointId then s1\<lparr>selectedPoint := Some updatedNameData\<rparr>
                       else s1))
              | Inl _ \<Rightarrow> ([UpdatePoint pointId updates], s)))"

definition handlePointDescriptionChange ::
    "Firestore \<Rightarrow> string \<Rightarrow> string \<Rightarrow> HomePage \<Rightarrow> store_call list \<times> HomePage" where
  "handlePointDescriptionChange fs pointId newDescription s =
     (case findPoint pointId (allPoints s) of
        None \<Rightarrow> ([], s)
      | Some pointToUpdate \<Rightarrow>
          (let updatedDescriptionData = pointToUpdate\<lparr>pt_description := newDescription\<rparr>;
               updates = noUpdates\<lparr>upd_description := Some newDescription\<rparr>
           in case updateRecyclingPointInDB fs pointId updates of
                Inr _ \<Rightarrow>
                  ([UpdatePoint pointId updates],
                   (let s1 = s\<lparr>allPoints :=
                                  replacePoint pointId updatedDescriptionData (allPoints s)\<rparr>
                    in if isSelected s pointId
                       then s1\<lparr>selectedPoint := Some updatedDescriptionData\<rparr>
                       else s1))
              | Inl _ \<Rightarrow> ([UpdatePoint pointId updates], s)))"

definition handleInitiateAddPoint :: "HomePage \<Rightarrow> HomePage" where
  "handleInitiateAddPoint s =
     (if categoryForNewPoint s = [] then s
      else s\<lparr>isAddingNewPointMode := True, isSelectingLocation := False,
             editingPointId := None, selectedPoint := None\<rparr>)"

definition handlePlaceNewPoint ::
    "Firestore \<Rightarrow> real \<Rightarrow> real \<Rightarrow> HomePage \<Rightarrow> store_call list \<times> HomePage" where
  "handlePlaceNewPoint fs newX newY s =
     (if \<not> isAddingNewPointMode s \<or> categoryForNewPoint s = [] then ([], s)
      else
        (let newPointData =
               \<lparr>np_name = ''New Recycling Point'', np_category = categoryForNewPoint s,
                np_x = newX, np_y = newY, np_description = ''''\<rparr>
         in case addRecyclingPointToDB fs newPointData of
              Inr addedPointWithId \<Rightarrow>
                ([AddPoint newPointData],
                 s\<lparr>allPoints := allPoints s @ [addedPointWithId],
                   selectedPoint := Some addedPointWithId,
                   editingPointId := Some (pt_id addedPointWithId),
                   isAddingNewPointMode := False,
                   categoryForNewPoint := ''''\<rparr>)
            | Inl _ \<Rightarrow>
                ([AddPoint newPointData],
                 s\<lparr>isAddingNewPointMode := False, categoryForNewPoint := ''''\<rparr>)))"

definition handleDeletePoint :: "Firestore \<Rightarrow> string \<Rightarrow> HomePage \<Rightarrow> store_call list \<times> HomePage" where
  "handleDeletePoint fs pointId s =
     (case findPoint pointId (allPoints s) of
        None \<Rightarrow> ([], s)
      | Some pointToDelete \<Rightarrow>
          (case deleteRecyclingPointFromDB fs pointId of
             Inr _ \<Rightarrow>
               ([DeletePoint pointId],
                handleCloseDialog
                  (s\<lparr>allPoints := filter (\<lambda>p. pt_id p \<noteq> pointId) (allPoints s)\<rparr>))
           | Inl _ \<Rightarrow> ([DeletePoint pointId], s)))"

text \<open>The \<^verbatim>\<open>keydown\<close> listener of the page; \<open>key\<close> is \<^verbatim>\<open>event.key\<close>.\<close>

definition handleKeyDown :: "string \<Rightarrow> HomePage \<Rightarrow> HomePage" where
  "handleKeyDown key s =
     (if key = ''Escape'' then
        (if isAddingNewPointMode s then
           s\<lparr>isAddingNewPointMode := False, categoryForNewPoint := ''''\<rparr>
         else if isSelectingLocation s then
           (let s1 = s\<lparr>isSelectingLocation := False\<rparr> in
            case editingPointId s of
              None \<Rightarrow> s1
            | Some i \<Rightarrow>
                if i \<noteq> [] then s1\<lparr>selectedPoint := findPoint i (allPoints s)\<rparr> else s1)
         else if selectedPoint s \<noteq> None \<and> \<not> truthyId (editingPointId s) then
           handleCloseDialog s
         else s)
      else s)"

text \<open>\<^verbatim>\<open>dialogOpen\<close>, computed at every render.\<close>

definition dialogOpen :: "HomePage \<Rightarrow> bool" where
  "dialogOpen s = (selectedPoint s \<noteq> None \<and> \<not> isSelectingLocation s \<and> \<not> isAddingNewPointMode s)"

section \<open>The map surface (RecyclingMap)\<close>

text \<open>
  The component keeps its own zoom factor; the page passes its flags down as props. What the
  click handler reads from the browser is a parameter: the pointer position, whether the
  click landed inside a marker button or the current-location marker, and the bounding
  rectangle of the map container (absent when the viewport ref or its first child is null).
  The arithmetic is over the reals; the source computes it in double precision.
\<close>

record DOMRect =
  rect_left :: real
  rect_top :: real

record MouseEvent =
  clientX :: real
  clientY :: real
  targetInsideMarker :: bool

record RecyclingMap =
  currentScale :: real
  viewportRef :: "DOMRect option option"

definition imageWidth :: real where
  "imageWidth = 2000"

definition imageHeight :: real where
  "imageHeight = 1500"

definition handleZoomIn :: "RecyclingMap \<Rightarrow> RecyclingMap" where
  "handleZoomIn m = m\<lparr>currentScale := min (currentScale m + 0.2) 3\<rparr>"

definition handleZoomOut :: "RecyclingMap \<Rightarrow> RecyclingMap" where
  "handleZoomOut m = m\<lparr>currentScale := max (currentScale m - 0.2) 0.5\<rparr>"

definition handleReset :: "RecyclingMap \<Rightarrow> RecyclingMap" where
  "handleReset m = m\<lparr>currentScale := 1\<rparr>"

text \<open>
  The percentages \<^verbatim>\<open>newXPercent\<close> and \<^verbatim>\<open>newYPercent\<close> that the click handler computes from the
  pointer position, the container rectangle and the zoom factor.
\<close>

definition newXPercent :: "real \<Rightarrow> DOMRect \<Rightarrow> MouseEvent \<Rightarrow> real" where
  "newXPercent scale rect e =
     (let xOnImage = clientX e - rect_left rect
      in max 0 (min 100 ((xOnImage / (imageWidth * scale)) * 100)))"

definition newYPercent :: "real \<Rightarrow> DOMRect \<Rightarrow> MouseEvent \<Rightarrow> real" where
  "newYPercent scale rect e =
     (let yOnImage = clientY e - rect_top rect
      in max 0 (min 100 ((yOnImage / (imageHeight * scale)) * 100)))"

definition handleMapClick ::
    "Firestore \<Rightarrow> RecyclingMap \<Rightarrow> MouseEvent \<Rightarrow> HomePage \<Rightarrow> store_call list \<times> HomePage" where
  "handleMapClick fs m e s =
     (case viewportRef m of
        None \<Rightarrow> ([], s)
      | Some viewport \<Rightarrow>
          if targetInsideMarker e then ([], s)
          else case viewport of
                 None \<Rightarrow> ([], s)
               | Some rect \<Rightarrow>
                   if isAddingNewPointMode s then
                     handlePlaceNewPoint fs (newXPercent (currentScale m) rect e)
                       (newYPercent (currentScale m) rect e) s
                   else case editingPointId s of
                          None \<Rightarrow> ([], s)
                        | Some i \<Rightarrow>
                            if i \<noteq> [] \<and> isSelectingLocation s then
                              handlePointCoordinateChange fs i
                                (newXPercent (currentScale m) rect e)
                                (newYPercent (currentScale m) rect e) s
                            else ([], s))"

text \<open>The \<^verbatim>\<open>onClick\<close> that the map gives each marker.\<close>

definition markerOnClick :: "RecyclingPoint \<Rightarrow> HomePage \<Rightarrow> HomePage" where
  "markerOnClick point s =
     (if \<not> isSelectingLocation s \<and> \<not> isAddingNewPointMode s then handlePointSelect point s
      else if isSelectingLocation s \<and> \<not> isAddingNewPointMode s then handlePointSelect point s
      else s)"

section \<open>The details dialog (PointDetailsDialog)\<close>

text \<open>
  The dialog receives \<open>selectedPoint\<close> as \<^verbatim>\<open>point\<close> and \<open>dialogOpen\<close> as \<^verbatim>\<open>isOpen\<close>. Each action
  is available only while the dialog is open, and the editing controls only while
  \<^verbatim>\<open>isCurrentlyEditingThisPoint\<close>. The dialog's local flag \<^verbatim>\<open>showProblemReportForm\<close> is a
  parameter of the one action that reads it; it also hides some buttons, which the model
  leaves available.
\<close>

datatype dialog_action =
    DlgClose
  | DlgEditButton
  | DlgFinishEditing
  | DlgToggleProblemReportForm bool
  | DlgNameChange string
  | DlgDescriptionChange string
  | DlgCategoryChange RecyclingCategoryEnum
  | DlgChangeLocation
  | DlgDeleteConfirmed

definition PointDetailsDialog :: "Firestore \<Rightarrow> dialog_action \<Rightarrow> HomePage \<Rightarrow> HomePage" where
  "PointDetailsDialog fs a s =
     (if \<not> dialogOpen s then s
      else case selectedPoint s of
             None \<Rightarrow> s
           | Some point \<Rightarrow>
               (let isCurrentlyEditingThisPoint = (editingPointId s = Some (pt_id point)) in
                case a of
                  DlgClose \<Rightarrow> handleCloseDialog s
                | DlgEditButton \<Rightarrow>
                    if \<not> isCurrentlyEditingThisPoint
                    then handleToggleEditMode (Some (pt_id point)) s else s
                | DlgFinishEditing \<Rightarrow>
                    if isCurrentlyEditingThisPoint then handleToggleEditMode None s else s
                | DlgToggleProblemReportForm showProblemReportForm \<Rightarrow>
                    if isCurrentlyEditingThisPoint \<and> \<not> showProblemReportForm
                    then handleToggleEditMode None s else s
                | DlgNameChange v \<Rightarrow>
                    if isCurrentlyEditingThisPoint
                    then snd (handlePointNameChange fs (pt_id point) v s) else s
                | DlgDescriptionChange v \<Rightarrow>
                    if isCurrentlyEditingThisPoint
                    then snd (handlePointDescriptionChange fs (pt_id point) v s) else s
                | DlgCategoryChange c \<Rightarrow>
                    if isCurrentlyEditingThisPoint \<and> c \<in> set INITIAL_CATEGORIES
                    then snd (handlePointCategoryChange fs (pt_id point) c s) else s
                | DlgChangeLocation \<Rightarrow>
                    if isCurrentlyEditingThisPoint then handleChangeLocationStart s else s
                | DlgDeleteConfirmed \<Rightarrow>
                    if isCurrentlyEditingThisPoint
                    then snd (handleDeletePoint fs (pt_id point) s) else s))"

section \<open>Events of the page\<close>

text \<open>
  Each user action and the mount effect is one step: the handler runs to completion with the
  answer of the store (the source awaits the store inside the handler and coordinates no
  interleaving). \<open>Mount\<close> carries what \<^verbatim>\<open>getRecyclingPointsFromDB\<close> settles with, at the type
  its signature declares. The page renders its controls only once it is on the client, has
  finished loading and has no load error; the key listener is attached by an effect and does
  not depend on that.
\<close>

datatype event =
    Mount "service_error + RecyclingPoint list"
  | FilterToggle RecyclingCategoryEnum bool
  | ResetFilters
  | SelectCategoryForNewPoint RecyclingCategoryEnum
  | AddPointButton
  | MarkerClick RecyclingPoint
  | MapClick RecyclingMap MouseEvent
  | KeyDown string
  | Dialog dialog_action

definition mountEffect :: "service_error + RecyclingPoint list \<Rightarrow> HomePage \<Rightarrow> HomePage" where
  "mountEffect r s =
     (let s1 = s\<lparr>isClient := True, isLoading := True, error := None,
                   selectedCategories := INITIAL_CATEGORIES\<rparr>
      in case r of
           Inr pointsFromDB \<Rightarrow> s1\<lparr>allPoints := pointsFromDB, isLoading := False\<rparr>
         | Inl err \<Rightarrow> s1\<lparr>error := Some err, isLoading := False\<rparr>)"

definition rendered :: "HomePage \<Rightarrow> bool" where
  "rendered s = (isClient s \<and> \<not> isLoading s \<and> error s = None)"

fun step :: "Firestore \<Rightarrow> event \<Rightarrow> HomePage \<Rightarrow> HomePage" where
  "step fs (Mount r) s = mountEffect r s"
| "step fs (KeyDown key) s = handleKeyDown key s"
| "step fs (FilterToggle c checked) s =
     (if rendered s \<and> c \<in> set INITIAL_CATEGORIES then handleCategoryChange c checked s else s)"
| "step fs ResetFilters s = (if rendered s then resetFilters s else s)"
| "step fs (SelectCategoryForNewPoint c) s =
     (if rendered s \<and> c \<in> set INITIAL_CATEGORIES then s\<lparr>categoryForNewPoint := c\<rparr> else s)"
| "step fs AddPointButton s =
     (if rendered s \<and> categoryForNewPoint s \<noteq> [] then handleInitiateAddPoint s else s)"
| "step fs (MarkerClick point) s =
     (if rendered s \<and> point \<in> set (filteredPoints s) then markerOnClick point s else s)"
| "step fs (MapClick m e) s = (if rendered s then snd (handleMapClick fs m e s) else s)"
| "step fs (Dialog a) s = (if rendered s then PointDetailsDialog fs a s else s)"

text \<open>A run of the page: the events in order, each with the store's behaviour at that step.\<close>

fun run :: "(Firestore \<times> event) list \<Rightarrow> HomePage \<Rightarrow> HomePage" where
  "run [] s = s"
| "run ((fs, ev) # evs) s = run evs (step fs ev s)"

text \<open>A sequence of filter toggles, applied in order.\<close>

fun applyToggles :: "(RecyclingCategoryEnum \<times> bool) list \<Rightarrow> HomePage \<Rightarrow> HomePage" where
  "applyToggles [] s = s"
| "applyToggles ((categoryId, checked) # ts) s =
     applyToggles ts (handleCategoryChange categoryId checked s)"

section \<open>Sample data\<close>

text \<open>Concrete stores, points and page states at which the theorems below are instantiated.\<close>

definition okStore :: Firestore where
  "okStore = \<lparr>db = True, getDocs = Resolved [], addDoc = (\<lambda>_. Resolved ''new1''),
              updateDoc = (\<lambda>_ _. Resolved ()), deleteDoc = (\<lambda>_. Resolved ())\<rparr>"

definition failingStore :: Firestore where
  "failingStore = \<lparr>db = True, getDocs = Rejected ''unavailable'',
                   addDoc = (\<lambda>_. Rejected ''unavailable''),
                   updateDoc = (\<lambda>_ _. Rejected ''unavailable''),
                   deleteDoc = (\<lambda>_. Rejected ''unavailable'')\<rparr>"

definition glassBin :: RecyclingPoint where
  "glassBin = \<lparr>pt_id = ''p1'', pt_name = ''Glass bin'', pt_category = ''glass'',
               pt_x = 10, pt_y = 20, pt_description = ''near the square''\<rparr>"

definition paperBin :: RecyclingPoint where
  "paperBin = \<lparr>pt_id = ''p2'', pt_name = ''Paper bin'', pt_category = ''paper'',
               pt_x = 70, pt_y = 35, pt_description = ''''\<rparr>"

definition editingGlassBin :: HomePage where
  "editingGlassBin =
     \<lparr>allPoints = [glassBin, paperBin], selectedCategories = INITIAL_CATEGORIES,
      selectedPoint = Some glassBin, isClient = True, editingPointId = Some ''p1'',
      isSelectingLocation = False, isAddingNewPointMode = False,
      categoryForNewPoint = '''', isLoading = False, error = None\<rparr>"

definition addingGlass :: HomePage where
  "addingGlass =
     \<lparr>allPoints = [glassBin, paperBin], selectedCategories = INITIAL_CATEGORIES,
      selectedPoint = None, isClient = True, editingPointId = None,
      isSelectingLocation = False, isAddingNewPointMode = True,
      categoryForNewPoint = ''glass'', isLoading = False, error = None\<rparr>"

text \<open>
  More sample data: page states, runs of events from the initial state, map clicks and a
  stored document.
\<close>

definition relocatingGlassBin :: HomePage where
  "relocatingGlassBin = editingGlassBin\<lparr>isSelectingLocation := True, selectedPoint := Some paperBin\<rparr>"

definition viewingGlassBin :: HomePage where
  "viewingGlassBin = editingGlassBin\<lparr>editingPointId := None\<rparr>"

definition editingRun :: "(Firestore \<times> event) list" where
  "editingRun =
     [(okStore, Mount (Inr [glassBin, paperBin])),
      (okStore, MarkerClick glassBin),
      (okStore, Dialog DlgEditButton)]"

definition relocatingRun :: "(Firestore \<times> event) list" where
  "relocatingRun = editingRun @ [(okStore, Dialog DlgChangeLocation)]"

definition categoryChosenRun :: "(Firestore \<times> event) list" where
  "categoryChosenRun =
     [(okStore, Mount (Inr [glassBin, paperBin])),
      (okStore, SelectCategoryForNewPoint ''glass'')]"

definition sampleRect :: DOMRect where
  "sampleRect = \<lparr>rect_left = 100, rect_top = 50\<rparr>"

definition sampleMap :: RecyclingMap where
  "sampleMap = \<lparr>currentScale = 1, viewportRef = Some (Some sampleRect)\<rparr>"

definition sampleClick :: MouseEvent where
  "sampleClick = \<lparr>clientX = 700, clientY = 650, targetInsideMarker = False\<rparr>"

definition centreClick :: MouseEvent where
  "centreClick = \<lparr>clientX = 1100, clientY = 800, targetInsideMarker = False\<rparr>"

definition cornerClick :: MouseEvent where
  "cornerClick = \<lparr>clientX = 100, clientY = 50, targetInsideMarker = False\<rparr>"

definition outsideClick :: MouseEvent where
  "outsideClick = \<lparr>clientX = 40, clientY = 1700, targetInsideMarker = False\<rparr>"

definition sampleDoc :: QueryDocumentSnapshot where
  "sampleDoc = \<lparr>doc_id = ''d1'',
                doc_data = [(''name'', JString ''''), (''x'', JNumber 150), (''y'', JString ''12'')]\<rparr>"

definition storeWithDoc :: Firestore where
  "storeWithDoc = okStore\<lparr>getDocs := Resolved [sampleDoc]\<rparr>"

section \<open>The placement modes exclude each other\<close>

text \<open>
  The invariant of the page: while a new location is being selected, the page is not adding a
  new point and the id being edited is truthy. Every event preserves it.
\<close>

definition modesExclusive :: "HomePage \<Rightarrow> bool" where
  "modesExclusive s =
     (\<not> isSelectingLocation s \<or> (\<not> isAddingNewPointMode s \<and> truthyId (editingPointId s)))"

section \<open>Auxiliary facts\<close>

lemma findPoint_None_iff: "findPoint pointId ps = None \<longleftrightarrow> pointId \<notin> pt_id ` set ps"
  by (auto simp: findPoint_def find_None_iff)

lemma findPoint_Some_id: "findPoint pointId ps = Some p \<Longrightarrow> pt_id p = pointId \<and> p \<in> set ps"
  by (auto simp: findPoint_def find_Some_iff)

lemma findPoint_present: "pointId \<in> pt_id ` set ps \<Longrightarrow> \<exists>p. findPoint pointId ps = Some p"
  using findPoint_None_iff [of pointId ps] by (cases "findPoint pointId ps") auto

lemma applyToggles_allPoints: "allPoints (applyToggles ts s) = allPoints s"
  by (induction ts arbitrary: s) (auto simp: handleCategoryChange_def)

lemma zoom_keeps_scale_in_range:
  assumes "0.5 \<le> currentScale m" and "currentScale m \<le> 3"
  shows "0.5 \<le> currentScale (handleZoomIn m) \<and> currentScale (handleZoomIn m) \<le> 3
       \<and> 0.5 \<le> currentScale (handleZoomOut m) \<and> currentScale (handleZoomOut m) \<le> 3
       \<and> currentScale (handleReset m) = 1"
  using assms by (simp add: handleZoomIn_def handleZoomOut_def handleReset_def)

lemma run_append: "run (xs @ ys) s = run ys (run xs s)"
  by (induction xs arbitrary: s) auto

lemma newXPercent_range: "0 \<le> newXPercent scale rect e \<and> newXPercent scale rect e \<le> 100"
  by (simp add: newXPercent_def Let_def)

lemma newYPercent_range: "0 \<le> newYPercent scale rect e \<and> newYPercent scale rect e \<le> 100"
  by (simp add: newYPercent_def Let_def)

lemma replacePoint_ids:
  "pt_id q = pointId \<Longrightarrow> pt_id ` set (replacePoint pointId q ps) = pt_id ` set ps"
  by (induction ps) (auto simp: replacePoint_def)

lemma replacePoint_at_id:
  "p \<in> set (replacePoint pointId q ps) \<Longrightarrow> pt_id p = pointId \<Longrightarrow> pt_id q = pointId \<Longrightarrow> p = q"
  by (auto simp: replacePoint_def split: if_splits)

lemma clamp_low: "v \<le> 0 \<Longrightarrow> max 0 (min 100 (v * 100)) = (0::real)"
  by (simp add: max_def min_def)

lemma clamp_high: "1 < v \<Longrightarrow> max 0 (min 100 (v * 100)) = (100::real)"
  by (simp add: max_def min_def)

lemma newXPercent_left:
  assumes "0 < scale" and "clientX e < rect_left rect"
  shows "newXPercent scale rect e = 0"
proof -
  have "(clientX e - rect_left rect) / (imageWidth * scale) \<le> 0"
    using assms by (simp add: imageWidth_def divide_le_0_iff)
  then show ?thesis
    unfolding newXPercent_def Let_def by (rule clamp_low)
qed

lemma newXPercent_right:
  assumes "0 < scale" and "rect_left rect + imageWidth * scale < clientX e"
  shows "newXPercent scale rect e = 100"
proof -
  have pos: "0 < imageWidth * scale"
    using assms(1) by (simp add: imageWidth_def)
  have "imageWidth * scale < clientX e - rect_left rect"
    using assms(2) by simp
  with pos have "1 < (clientX e - rect_left rect) / (imageWidth * scale)"
    by (simp add: less_divide_eq)
  then show ?thesis
    unfolding newXPercent_def Let_def by (rule clamp_high)
qed

lemma newYPercent_top:
  assumes "0 < scale" and "clientY e < rect_top rect"
  shows "newYPercent scale rect e = 0"
proof -
  have "(clientY e - rect_top rect) / (imageHeight * scale) \<le> 0"
    using assms by (simp add: imageHeight_def divide_le_0_iff)
  then show ?thesis
    unfolding newYPercent_def Let_def by (rule clamp_low)
qed

lemma newYPercent_bottom:
  assumes "0 < scale" and "rect_top rect + imageHeight * scale < clientY e"
  shows "newYPercent scale rect e = 100"
proof -
  have pos: "0 < imageHeight * scale"
    using assms(1) by (simp add: imageHeight_def)
  have "imageHeight * scale < clientY e - rect_top rect"
    using assms(2) by simp
  with pos have "1 < (clientY e - rect_top rect) / (imageHeight * scale)"
    by (simp add: less_divide_eq)
  then show ?thesis
    unfolding newYPercent_def Let_def by (rule clamp_high)
qed

lemma newXPercent_centre:
  assumes "clientX e - rect_left rect = imageWidth / 2"
  shows "newXPercent 1 rect e = 50"
  by (simp only: newXPercent_def Let_def assms) (simp add: imageWidth_def)

lemma newYPercent_centre:
  assumes "clientY e - rect_top rect = imageHeight / 2"
  shows "newYPercent 1 rect e = 50"
  by (simp only: newYPercent_def Let_def assms) (simp add: imageHeight_def)

lemma newPercent_corner:
  assumes "clientX e = rect_left rect" and "clientY e = rect_top rect"
  shows "newXPercent scale rect e = 0 \<and> newYPercent scale rect e = 0"
  by (simp add: newXPercent_def newYPercent_def assms)

subsection \<open>Preservation of the invariant\<close>

lemma inv_init: "modesExclusive initialState"
  by (simp add: modesExclusive_def initialState_def)

lemma inv_mount: "modesExclusive s \<Longrightarrow> modesExclusive (mountEffect r s)"
  by (cases r) (auto simp: modesExclusive_def mountEffect_def Let_def)

lemma inv_keydown: "modesExclusive s \<Longrightarrow> modesExclusive (handleKeyDown key s)"
  by (auto simp: modesExclusive_def handleKeyDown_def handleCloseDialog_def Let_def
      split: option.splits)

lemma inv_toggle: "modesExclusive s \<Longrightarrow> modesExclusive (handleCategoryChange c b s)"
  by (simp add: modesExclusive_def handleCategoryChange_def)

lemma inv_reset: "modesExclusive s \<Longrightarrow> modesExclusive (resetFilters s)"
  by (simp add: modesExclusive_def resetFilters_def)

lemma inv_initiate: "modesExclusive s \<Longrightarrow> modesExclusive (handleInitiateAddPoint s)"
  by (auto simp: modesExclusive_def handleInitiateAddPoint_def)

lemma inv_select: "modesExclusive s \<Longrightarrow> modesExclusive (handlePointSelect p s)"
  by (auto simp: modesExclusive_def handlePointSelect_def)

lemma inv_marker: "modesExclusive s \<Longrightarrow> modesExclusive (markerOnClick p s)"
  by (auto simp: markerOnClick_def inv_select)

lemma inv_place: "modesExclusive s \<Longrightarrow> modesExclusive (snd (handlePlaceNewPoint fs x y s))"
  by (auto simp: modesExclusive_def handlePlaceNewPoint_def Let_def split: sum.splits)

lemma inv_coord: "modesExclusive s \<Longrightarrow> modesExclusive (snd (handlePointCoordinateChange fs i x y s))"
  by (auto simp: modesExclusive_def handlePointCoordinateChange_def Let_def
      split: sum.splits option.splits)

lemma inv_mapclick: "modesExclusive s \<Longrightarrow> modesExclusive (snd (handleMapClick fs m e s))"
  by (auto simp: handleMapClick_def inv_place inv_coord split: option.splits)

lemma inv_name: "modesExclusive s \<Longrightarrow> modesExclusive (snd (handlePointNameChange fs i v s))"
  by (auto simp: modesExclusive_def handlePointNameChange_def Let_def
      split: sum.splits option.splits)

lemma inv_desc: "modesExclusive s \<Longrightarrow> modesExclusive (snd (handlePointDescriptionChange fs i v s))"
  by (auto simp: modesExclusive_def handlePointDescriptionChange_def Let_def
      split: sum.splits option.splits)

lemma inv_cat: "modesExclusive s \<Longrightarrow> modesExclusive (snd (handlePointCategoryChange fs i v s))"
  by (auto simp: modesExclusive_def handlePointCategoryChange_def Let_def
      split: sum.splits option.splits)

lemma inv_delete: "modesExclusive s \<Longrightarrow> modesExclusive (snd (handleDeletePoint fs i s))"
  by (auto simp: modesExclusive_def handleDeletePoint_def handleCloseDialog_def
      split: sum.splits option.splits)

lemma inv_close: "modesExclusive (handleCloseDialog s)"
  by (simp add: modesExclusive_def handleCloseDialog_def)

lemma inv_toggleEdit: "modesExclusive s \<Longrightarrow> modesExclusive (handleToggleEditMode i s)"
  by (auto simp: modesExclusive_def handleToggleEditMode_def Let_def split: option.splits)

lemma inv_changeLocation:
  "modesExclusive s \<Longrightarrow> dialogOpen s \<Longrightarrow> modesExclusive (handleChangeLocationStart s)"
  by (auto simp: modesExclusive_def handleChangeLocationStart_def dialogOpen_def)

lemma inv_dialog: "modesExclusive s \<Longrightarrow> modesExclusive (PointDetailsDialog fs a s)"
  by (cases a)
     (auto simp: PointDetailsDialog_def Let_def inv_close inv_toggleEdit inv_name inv_desc
        inv_cat inv_changeLocation inv_delete split: option.splits)

lemma inv_setCategory: "modesExclusive s \<Longrightarrow> modesExclusive (s\<lparr>categoryForNewPoint := c\<rparr>)"
  by (simp add: modesExclusive_def)

lemma inv_step: "modesExclusive s \<Longrightarrow> modesExclusive (step fs ev s)"
  by (cases ev)
     (auto simp: inv_mount inv_keydown inv_toggle inv_reset inv_marker inv_mapclick inv_dialog
        inv_initiate inv_setCategory)

lemma inv_run: "modesExclusive s \<Longrightarrow> modesExclusive (run evs s)"
  by (induction evs arbitrary: s) (auto simp: inv_step)

lemma reachable_modesExclusive: "modesExclusive (run evs initialState)"
  by (simp add: inv_run inv_init)

subsection \<open>The sample runs\<close>

lemmas sample_defs =
  okStore_def failingStore_def glassBin_def paperBin_def editingGlassBin_def addingGlass_def
  initialState_def INITIAL_CATEGORIES_def

lemmas page_defs =
  mountEffect_def rendered_def filteredPoints_def markerOnClick_def handlePointSelect_def
  PointDetailsDialog_def dialogOpen_def handleToggleEditMode_def handleChangeLocationStart_def
  handleInitiateAddPoint_def findPoint_def

lemma run_editingRun: "run editingRun initialState = editingGlassBin"
  by (simp add: editingRun_def sample_defs page_defs)

lemma run_relocatingRun:
  "run relocatingRun initialState = editingGlassBin\<lparr>isSelectingLocation := True\<rparr>"
  by (simp add: relocatingRun_def run_append run_editingRun)
     (simp add: sample_defs page_defs)

lemma run_categoryChosenRun:
  "run categoryChosenRun initialState = addingGlass\<lparr>isAddingNewPointMode := False\<rparr>"
  by (simp add: categoryChosenRun_def sample_defs page_defs)

section \<open>Mutual exclusion of the placement modes\<close>

text \<open>
  Claim C1. In every state the page reaches from its initial state, \<open>isAddingNewPointMode\<close> and
  \<open>isSelectingLocation\<close> are never both true. The add-point trigger, when a category is chosen,
  sets \<open>isAddingNewPointMode\<close> and clears \<open>isSelectingLocation\<close> and \<open>editingPointId\<close>. After the
  change-location action of the dialog, if the page is selecting a location then it is not
  adding a point: \<^verbatim>\<open>handleChangeLocationStart\<close> writes only \<open>isSelectingLocation\<close>, and the flag of
  the other mode is already false then, because the dialog that offers the action is open only
  while \<open>isAddingNewPointMode\<close> is false.
\<close>

theorem placement_modes_mutually_exclusive:
  "\<not> (isAddingNewPointMode (run evs initialState) \<and> isSelectingLocation (run evs initialState))
   \<and> (categoryForNewPoint (run evs initialState) \<noteq> [] \<longrightarrow>
        isAddingNewPointMode (handleInitiateAddPoint (run evs initialState))
        \<and> \<not> isSelectingLocation (handleInitiateAddPoint (run evs initialState))
        \<and> editingPointId (handleInitiateAddPoint (run evs initialState)) = None)
   \<and> (isSelectingLocation (step fs (Dialog DlgChangeLocation) (run evs initialState)) \<longrightarrow>
        \<not> isAddingNewPointMode (step fs (Dialog DlgChangeLocation) (run evs initialState)))"
proof -
  have a: "\<not> (isAddingNewPointMode (run evs initialState) \<and> isSelectingLocation (run evs initialState))"
    using reachable_modesExclusive [of evs] by (auto simp: modesExclusive_def)
  have b: "categoryForNewPoint (run evs initialState) \<noteq> [] \<longrightarrow>
        isAddingNewPointMode (handleInitiateAddPoint (run evs initialState))
        \<and> \<not> isSelectingLocation (handleInitiateAddPoint (run evs initialState))
        \<and> editingPointId (handleInitiateAddPoint (run evs initialState)) = None"
    by (simp add: handleInitiateAddPoint_def)
  have "modesExclusive (run (evs @ [(fs, Dialog DlgChangeLocation)]) initialState)"
    by (rule reachable_modesExclusive)
  then have c: "isSelectingLocation (step fs (Dialog DlgChangeLocation) (run evs initialState)) \<longrightarrow>
        \<not> isAddingNewPointMode (step fs (Dialog DlgChangeLocation) (run evs initialState))"
    by (simp only: run_append run.simps modesExclusive_def) blast
  from a b c show ?thesis by blast
qed

theorem placement_modes_mutually_exclusive_witness:
  "isSelectingLocation (run relocatingRun initialState)
   \<and> \<not> isAddingNewPointMode (run relocatingRun initialState)
   \<and> categoryForNewPoint (run categoryChosenRun initialState) \<noteq> []
   \<and> isAddingNewPointMode (handleInitiateAddPoint (run categoryChosenRun initialState))
   \<and> \<not> isSelectingLocation (handleInitiateAddPoint (run categoryChosenRun initialState))
   \<and> isSelectingLocation (step okStore (Dialog DlgChangeLocation) (run editingRun initialState))
   \<and> \<not> isAddingNewPointMode (step okStore (Dialog DlgChangeLocation) (run editingRun initialState))"
proof -
  have r: "isSelectingLocation (run relocatingRun initialState)"
    by (simp add: run_relocatingRun)
  have c: "categoryForNewPoint (run categoryChosenRun initialState) \<noteq> []"
    by (simp add: run_categoryChosenRun addingGlass_def)
  have d: "isSelectingLocation (step okStore (Dialog DlgChangeLocation) (run editingRun initialState))"
    by (simp add: run_editingRun) (simp add: sample_defs page_defs)
  show ?thesis
    using r c d
      placement_modes_mutually_exclusive [of relocatingRun okStore]
      placement_modes_mutually_exclusive [of categoryChosenRun okStore]
      placement_modes_mutually_exclusive [of editingRun okStore]
    by blast
qed

section \<open>Relocating a point\<close>

text \<open>
  Claim C2. In a reachable state where point \<open>P\<close> of the local list is being relocated
  (\<open>editingPointId\<close> is its id and \<open>isSelectingLocation\<close> holds), a click on the empty map sends
  one update of \<open>x\<close> and \<open>y\<close> for that id, carrying the clamped percentages of the click. When
  the update succeeds, \<open>editingPointId\<close> is still the id, \<open>isSelectingLocation\<close> is false, and the
  selected point and every entry of the local list with that id have these coordinates, which
  lie in [0, 100].
\<close>

theorem relocation_commits_clamped_click:
  assumes "s = run evs initialState"
    and "editingPointId s = Some pointId"
    and "isSelectingLocation s"
    and "findPoint pointId (allPoints s) = Some P"
    and "viewportRef m = Some (Some rect)"
    and "\<not> targetInsideMarker e"
    and "x = newXPercent (currentScale m) rect e"
    and "y = newYPercent (currentScale m) rect e"
    and "\<not> isl (updateRecyclingPointInDB fs pointId (noUpdates\<lparr>upd_x := Some x, upd_y := Some y\<rparr>))"
    and "s' = snd (handleMapClick fs m e s)"
  shows "fst (handleMapClick fs m e s) =
           [UpdatePoint pointId (noUpdates\<lparr>upd_x := Some x, upd_y := Some y\<rparr>)]
       \<and> editingPointId s' = Some pointId \<and> \<not> isSelectingLocation s'
       \<and> selectedPoint s' = Some (P\<lparr>pt_x := x, pt_y := y\<rparr>)
       \<and> allPoints s' = replacePoint pointId (P\<lparr>pt_x := x, pt_y := y\<rparr>) (allPoints s)
       \<and> pointId \<in> pt_id ` set (allPoints s')
       \<and> (\<forall>p \<in> set (allPoints s'). pt_id p = pointId \<longrightarrow> pt_x p = x \<and> pt_y p = y)
       \<and> 0 \<le> x \<and> x \<le> 100 \<and> 0 \<le> y \<and> y \<le> 100"
proof -
  have inv: "modesExclusive s"
    using assms(1) reachable_modesExclusive by simp
  with assms(2,3) have na: "\<not> isAddingNewPointMode s" and ne: "pointId \<noteq> []"
    by (auto simp: modesExclusive_def)
  have click: "handleMapClick fs m e s = handlePointCoordinateChange fs pointId x y s"
    using assms(2,3,5,6,7,8) na ne by (simp add: handleMapClick_def)
  have idP: "pt_id P = pointId" and inP: "P \<in> set (allPoints s)"
    using findPoint_Some_id [OF assms(4)] by auto
  obtain u where ok: "updateRecyclingPointInDB fs pointId (noUpdates\<lparr>upd_x := Some x, upd_y := Some y\<rparr>) = Inr u"
    using assms(9) by (cases "updateRecyclingPointInDB fs pointId (noUpdates\<lparr>upd_x := Some x, upd_y := Some y\<rparr>)") auto
  have res: "handlePointCoordinateChange fs pointId x y s =
          ([UpdatePoint pointId (noUpdates\<lparr>upd_x := Some x, upd_y := Some y\<rparr>)],
           s\<lparr>allPoints := replacePoint pointId (P\<lparr>pt_x := x, pt_y := y\<rparr>) (allPoints s),
             selectedPoint := Some (P\<lparr>pt_x := x, pt_y := y\<rparr>),
             editingPointId := Some pointId,
             isSelectingLocation := False\<rparr>)"
    using assms(4) ok by (simp add: handlePointCoordinateChange_def Let_def)
  have s': "s' = s\<lparr>allPoints := replacePoint pointId (P\<lparr>pt_x := x, pt_y := y\<rparr>) (allPoints s),
             selectedPoint := Some (P\<lparr>pt_x := x, pt_y := y\<rparr>),
             editingPointId := Some pointId,
             isSelectingLocation := False\<rparr>"
    using assms(10) click res by simp
  have ids: "pointId \<in> pt_id ` set (allPoints s')"
    using s' idP inP replacePoint_ids [of "P\<lparr>pt_x := x, pt_y := y\<rparr>" pointId "allPoints s"]
    by auto
  have coords: "\<forall>p \<in> set (allPoints s'). pt_id p = pointId \<longrightarrow> pt_x p = x \<and> pt_y p = y"
  proof (intro ballI impI)
    fix p assume "p \<in> set (allPoints s')" and "pt_id p = pointId"
    then have "p = P\<lparr>pt_x := x, pt_y := y\<rparr>"
      using s' idP replacePoint_at_id [of p pointId "P\<lparr>pt_x := x, pt_y := y\<rparr>" "allPoints s"]
      by simp
    then show "pt_x p = x \<and> pt_y p = y" by simp
  qed
  have range: "0 \<le> x \<and> x \<le> 100 \<and> 0 \<le> y \<and> y \<le> 100"
    using assms(7,8) newXPercent_range newYPercent_range by simp
  show ?thesis
    using click res s' ids coords range by simp
qed

theorem relocation_commits_clamped_click_witness:
  "editingPointId (run relocatingRun initialState) = Some ''p1''
   \<and> isSelectingLocation (run relocatingRun initialState)
   \<and> findPoint ''p1'' (allPoints (run relocatingRun initialState)) = Some glassBin
   \<and> newXPercent (currentScale sampleMap) sampleRect sampleClick = 30
   \<and> newYPercent (currentScale sampleMap) sampleRect sampleClick = 40
   \<and> fst (handleMapClick okStore sampleMap sampleClick (run relocatingRun initialState)) =
        [UpdatePoint ''p1'' (noUpdates\<lparr>upd_x := Some 30, upd_y := Some 40\<rparr>)]
   \<and> editingPointId (snd (handleMapClick okStore sampleMap sampleClick (run relocatingRun initialState))) = Some ''p1''
   \<and> \<not> isSelectingLocation (snd (handleMapClick okStore sampleMap sampleClick (run relocatingRun initialState)))
   \<and> selectedPoint (snd (handleMapClick okStore sampleMap sampleClick (run relocatingRun initialState)))
        = Some (glassBin\<lparr>pt_x := 30, pt_y := 40\<rparr>)
   \<and> allPoints (snd (handleMapClick okStore sampleMap sampleClick (run relocatingRun initialState)))
        = [glassBin\<lparr>pt_x := 30, pt_y := 40\<rparr>, paperBin]"
proof -
  let ?s = "run relocatingRun initialState"
  have h2: "editingPointId ?s = Some ''p1''"
    by (simp add: run_relocatingRun editingGlassBin_def)
  have h3: "isSelectingLocation ?s"
    by (simp add: run_relocatingRun)
  have h4: "findPoint ''p1'' (allPoints ?s) = Some glassBin"
    by (simp add: run_relocatingRun editingGlassBin_def findPoint_def glassBin_def)
  have h5: "viewportRef sampleMap = Some (Some sampleRect)"
    by (simp add: sampleMap_def)
  have h6: "\<not> targetInsideMarker sampleClick"
    by (simp add: sampleClick_def)
  have x: "newXPercent (currentScale sampleMap) sampleRect sampleClick = 30"
    by (simp add: newXPercent_def sampleMap_def sampleRect_def sampleClick_def imageWidth_def)
  have y: "newYPercent (currentScale sampleMap) sampleRect sampleClick = 40"
    by (simp add: newYPercent_def sampleMap_def sampleRect_def sampleClick_def imageHeight_def)
  have h9: "\<not> isl (updateRecyclingPointInDB okStore ''p1'' (noUpdates\<lparr>upd_x := Some 30, upd_y := Some 40\<rparr>))"
    by (simp add: updateRecyclingPointInDB_def okStore_def)
  have rp: "replacePoint ''p1'' (glassBin\<lparr>pt_x := 30, pt_y := 40\<rparr>) (allPoints ?s)
              = [glassBin\<lparr>pt_x := 30, pt_y := 40\<rparr>, paperBin]"
    by (simp add: run_relocatingRun editingGlassBin_def replacePoint_def glassBin_def paperBin_def)
  show ?thesis
    using h2 h3 h4 x y rp
      relocation_commits_clamped_click
        [OF refl h2 h3 h4 h5 h6 x [symmetric] y [symmetric] h9 refl]
    by simp
qed

section \<open>Field edits and store failures\<close>

text \<open>
  Claim C3, as amended. For a point of the local list, a name, category or description edit is
  applied to the local list only when the store update succeeds; when the update fails the
  page state is exactly what it was before the edit, so the list holds the original value. A
  failed coordinate change leaves the list unchanged too, sets the selected point to the
  original point data, keeps \<open>editingPointId\<close> at the id and clears \<open>isSelectingLocation\<close>.
\<close>

theorem field_edits_applied_only_after_success:
  assumes "findPoint pointId (allPoints s) = Some P"
  shows "(isl (updateRecyclingPointInDB fs pointId (noUpdates\<lparr>upd_name := Some newName\<rparr>)) \<longrightarrow>
            snd (handlePointNameChange fs pointId newName s) = s)
       \<and> (isl (updateRecyclingPointInDB fs pointId (noUpdates\<lparr>upd_category := Some newCategoryId\<rparr>)) \<longrightarrow>
            snd (handlePointCategoryChange fs pointId newCategoryId s) = s)
       \<and> (isl (updateRecyclingPointInDB fs pointId (noUpdates\<lparr>upd_description := Some newDescription\<rparr>)) \<longrightarrow>
            snd (handlePointDescriptionChange fs pointId newDescription s) = s)
       \<and> (\<not> isl (updateRecyclingPointInDB fs pointId (noUpdates\<lparr>upd_name := Some newName\<rparr>)) \<longrightarrow>
            allPoints (snd (handlePointNameChange fs pointId newName s)) =
              replacePoint pointId (P\<lparr>pt_name := newName\<rparr>) (allPoints s))
       \<and> (\<not> isl (updateRecyclingPointInDB fs pointId (noUpdates\<lparr>upd_category := Some newCategoryId\<rparr>)) \<longrightarrow>
            allPoints (snd (handlePointCategoryChange fs pointId newCategoryId s)) =
              replacePoint pointId (P\<lparr>pt_category := newCategoryId\<rparr>) (allPoints s))
       \<and> (\<not> isl (updateRecyclingPointInDB fs pointId (noUpdates\<lparr>upd_description := Some newDescription\<rparr>)) \<longrightarrow>
            allPoints (snd (handlePointDescriptionChange fs pointId newDescription s)) =
              replacePoint pointId (P\<lparr>pt_description := newDescription\<rparr>) (allPoints s))
       \<and> (isl (updateRecyclingPointInDB fs pointId (noUpdates\<lparr>upd_x := Some newX, upd_y := Some newY\<rparr>)) \<longrightarrow>
            snd (handlePointCoordinateChange fs pointId newX newY s) =
              s\<lparr>selectedPoint := Some P, editingPointId := Some pointId,
                isSelectingLocation := False\<rparr>)"
proof -
  have n: "isl (updateRecyclingPointInDB fs pointId (noUpdates\<lparr>upd_name := Some newName\<rparr>)) \<longrightarrow>
            snd (handlePointNameChange fs pointId newName s) = s"
    using assms by (auto simp: handlePointNameChange_def Let_def split: sum.splits)
  have c: "isl (updateRecyclingPointInDB fs pointId (noUpdates\<lparr>upd_category := Some newCategoryId\<rparr>)) \<longrightarrow>
            snd (handlePointCategoryChange fs pointId newCategoryId s) = s"
    using assms by (auto simp: handlePointCategoryChange_def Let_def split: sum.splits)
  have d: "isl (updateRecyclingPointInDB fs pointId (noUpdates\<lparr>upd_description := Some newDescription\<rparr>)) \<longrightarrow>
            snd (handlePointDescriptionChange fs pointId newDescription s) = s"
    using assms by (auto simp: handlePointDescriptionChange_def Let_def split: sum.splits)
  have n': "\<not> isl (updateRecyclingPointInDB fs pointId (noUpdates\<lparr>upd_name := Some newName\<rparr>)) \<longrightarrow>
            allPoints (snd (handlePointNameChange fs pointId newName s)) =
              replacePoint pointId (P\<lparr>pt_name := newName\<rparr>) (allPoints s)"
    using assms by (auto simp: handlePointNameChange_def Let_def split: sum.splits)
  have c': "\<not> isl (updateRecyclingPointInDB fs pointId (noUpdates\<lparr>upd_category := Some newCategoryId\<rparr>)) \<longrightarrow>
            allPoints (snd (handlePointCategoryChange fs pointId newCategoryId s)) =
              replacePoint pointId (P\<lparr>pt_category := newCategoryId\<rparr>) (allPoints s)"
    using assms by (auto simp: handlePointCategoryChange_def Let_def split: sum.splits)
  have d': "\<not> isl (updateRecyclingPointInDB fs pointId (noUpdates\<lparr>upd_description := Some newDescription\<rparr>)) \<longrightarrow>
            allPoints (snd (handlePointDescriptionChange fs pointId newDescription s)) =
              replacePoint pointId (P\<lparr>pt_description := newDescription\<rparr>) (allPoints s)"
    using assms by (auto simp: handlePointDescriptionChange_def Let_def split: sum.splits)
  have xy: "isl (updateRecyclingPointInDB fs pointId (noUpdates\<lparr>upd_x := Some newX, upd_y := Some newY\<rparr>)) \<longrightarrow>
            snd (handlePointCoordinateChange fs pointId newX newY s) =
              s\<lparr>selectedPoint := Some P, editingPointId := Some pointId,
                isSelectingLocation := False\<rparr>"
    using assms by (auto simp: handlePointCoordinateChange_def Let_def split: sum.splits)
  from n c d n' c' d' xy show ?thesis by (intro conjI)
qed

theorem field_edits_applied_only_after_success_witness:
  "findPoint ''p1'' (allPoints editingGlassBin) = Some glassBin
   \<and> snd (handlePointNameChange failingStore ''p1'' ''Renamed'' editingGlassBin) = editingGlassBin
   \<and> snd (handlePointCategoryChange failingStore ''p1'' ''metal'' editingGlassBin) = editingGlassBin
   \<and> snd (handlePointDescriptionChange failingStore ''p1'' ''moved'' editingGlassBin) = editingGlassBin
   \<and> allPoints (snd (handlePointNameChange okStore ''p1'' ''Renamed'' editingGlassBin))
       = [glassBin\<lparr>pt_name := ''Renamed''\<rparr>, paperBin]
   \<and> allPoints (snd (handlePointCategoryChange okStore ''p1'' ''metal'' editingGlassBin))
       = [glassBin\<lparr>pt_category := ''metal''\<rparr>, paperBin]
   \<and> allPoints (snd (handlePointDescriptionChange okStore ''p1'' ''moved'' editingGlassBin))
       = [glassBin\<lparr>pt_description := ''moved''\<rparr>, paperBin]
   \<and> snd (handlePointCoordinateChange failingStore ''p1'' 30 40 relocatingGlassBin)
       = editingGlassBin"
proof -
  have h: "findPoint ''p1'' (allPoints editingGlassBin) = Some glassBin"
    by (simp add: editingGlassBin_def findPoint_def glassBin_def)
  have h': "findPoint ''p1'' (allPoints relocatingGlassBin) = Some glassBin"
    by (simp add: relocatingGlassBin_def editingGlassBin_def findPoint_def glassBin_def)
  have ko: "\<And>u. isl (updateRecyclingPointInDB failingStore ''p1'' u)"
    by (simp add: updateRecyclingPointInDB_def failingStore_def)
  have ok: "\<And>u. \<not> isl (updateRecyclingPointInDB okStore ''p1'' u)"
    by (simp add: updateRecyclingPointInDB_def okStore_def)
  have rp: "\<And>q. replacePoint ''p1'' q (allPoints editingGlassBin) = [q, paperBin]"
    by (simp add: replacePoint_def editingGlassBin_def glassBin_def paperBin_def)
  have restored: "relocatingGlassBin\<lparr>selectedPoint := Some glassBin, editingPointId := Some ''p1'',
                isSelectingLocation := False\<rparr> = editingGlassBin"
    by (simp add: relocatingGlassBin_def editingGlassBin_def)
  show ?thesis
    using h ko ok rp restored
      field_edits_applied_only_after_success
        [OF h, where fs = failingStore and newName = "''Renamed''" and newCategoryId = "''metal''"
           and newDescription = "''moved''" and newX = 30 and newY = 40]
      field_edits_applied_only_after_success
        [OF h, where fs = okStore and newName = "''Renamed''" and newCategoryId = "''metal''"
           and newDescription = "''moved''" and newX = 30 and newY = 40]
      field_edits_applied_only_after_success
        [OF h', where fs = failingStore and newName = "''Renamed''" and newCategoryId = "''metal''"
           and newDescription = "''moved''" and newX = 30 and newY = 40]
    by simp
qed

text \<open>
  The claim as first stated says that a failed name edit stays applied locally. It does not:
  with a store that rejects the update, the names in the local list are the original ones.
\<close>

theorem failed_name_edit_keeps_old_name_counterexample:
  "isl (updateRecyclingPointInDB failingStore ''p1'' (noUpdates\<lparr>upd_name := Some ''Renamed''\<rparr>))
   \<and> map pt_name (allPoints (snd (handlePointNameChange failingStore ''p1'' ''Renamed'' editingGlassBin)))
       = [''Glass bin'', ''Paper bin'']"
  by (simp add: handlePointNameChange_def failingStore_def editingGlassBin_def glassBin_def
      paperBin_def findPoint_def updateRecyclingPointInDB_def noUpdates_def)

section \<open>Placing a new point\<close>

text \<open>
  Claim C4. While \<open>isAddingNewPointMode\<close> holds with a chosen (non-empty) category \<open>c\<close>, placing
  a point at \<open>(x, y)\<close> makes exactly one call to the store, an insert of
  \<^verbatim>\<open>{name: "New Recycling Point", category: c, x, y, description: ""}\<close>. When the store answers
  with an id, the returned point is appended to the local list and selected, \<open>editingPointId\<close>
  is that id, \<open>isAddingNewPointMode\<close> is false and \<open>categoryForNewPoint\<close> is empty. A click on the
  empty map in this mode places the point at the percentages of the click.
\<close>

theorem place_new_point_inserts_and_edits:
  assumes "isAddingNewPointMode s" and "categoryForNewPoint s = c" and "c \<noteq> []"
  shows "fst (handlePlaceNewPoint fs newX newY s) =
           [AddPoint \<lparr>np_name = ''New Recycling Point'', np_category = c, np_x = newX,
                      np_y = newY, np_description = ''''\<rparr>]
       \<and> (\<forall>newId. db fs \<and> addDoc fs \<lparr>np_name = ''New Recycling Point'', np_category = c,
                     np_x = newX, np_y = newY, np_description = ''''\<rparr> = Resolved newId \<longrightarrow>
            snd (handlePlaceNewPoint fs newX newY s) =
              s\<lparr>allPoints := allPoints s @
                    [\<lparr>pt_id = newId, pt_name = ''New Recycling Point'', pt_category = c,
                      pt_x = newX, pt_y = newY, pt_description = ''''\<rparr>],
                selectedPoint :=
                    Some \<lparr>pt_id = newId, pt_name = ''New Recycling Point'', pt_category = c,
                          pt_x = newX, pt_y = newY, pt_description = ''''\<rparr>,
                editingPointId := Some newId,
                isAddingNewPointMode := False,
                categoryForNewPoint := ''''\<rparr>)
       \<and> (\<forall>rect. viewportRef m = Some (Some rect) \<and> \<not> targetInsideMarker e \<longrightarrow>
            handleMapClick fs m e s =
              handlePlaceNewPoint fs (newXPercent (currentScale m) rect e)
                (newYPercent (currentScale m) rect e) s)"
  using assms
  by (auto simp: handlePlaceNewPoint_def addRecyclingPointToDB_def handleMapClick_def Let_def
      split: sum.splits promise.splits)

theorem place_new_point_inserts_and_edits_witness:
  "isAddingNewPointMode addingGlass \<and> categoryForNewPoint addingGlass = ''glass''
   \<and> db okStore
   \<and> addDoc okStore \<lparr>np_name = ''New Recycling Point'', np_category = ''glass'',
                     np_x = 30, np_y = 40, np_description = ''''\<rparr> = Resolved ''new1''
   \<and> viewportRef sampleMap = Some (Some sampleRect) \<and> \<not> targetInsideMarker sampleClick
   \<and> newXPercent (currentScale sampleMap) sampleRect sampleClick = 30
   \<and> newYPercent (currentScale sampleMap) sampleRect sampleClick = 40
   \<and> handleMapClick okStore sampleMap sampleClick addingGlass =
       ([AddPoint \<lparr>np_name = ''New Recycling Point'', np_category = ''glass'', np_x = 30,
                   np_y = 40, np_description = ''''\<rparr>],
        addingGlass\<lparr>allPoints := allPoints addingGlass @
                        [\<lparr>pt_id = ''new1'', pt_name = ''New Recycling Point'',
                          pt_category = ''glass'', pt_x = 30, pt_y = 40, pt_description = ''''\<rparr>],
                    selectedPoint :=
                        Some \<lparr>pt_id = ''new1'', pt_name = ''New Recycling Point'',
                              pt_category = ''glass'', pt_x = 30, pt_y = 40,
                              pt_description = ''''\<rparr>,
                    editingPointId := Some ''new1'',
                    isAddingNewPointMode := False,
                    categoryForNewPoint := ''''\<rparr>)"
proof -
  have a: "isAddingNewPointMode addingGlass"
    by (simp add: addingGlass_def)
  have c: "categoryForNewPoint addingGlass = ''glass''"
    by (simp add: addingGlass_def)
  have n: "''glass'' \<noteq> []"
    by simp
  have d: "db okStore \<and> addDoc okStore \<lparr>np_name = ''New Recycling Point'', np_category = ''glass'',
                     np_x = 30, np_y = 40, np_description = ''''\<rparr> = Resolved ''new1''"
    by (simp add: okStore_def)
  have v: "viewportRef sampleMap = Some (Some sampleRect) \<and> \<not> targetInsideMarker sampleClick"
    by (simp add: sampleMap_def sampleRect_def sampleClick_def)
  have x: "newXPercent (currentScale sampleMap) sampleRect sampleClick = 30"
    by (simp add: newXPercent_def sampleMap_def sampleRect_def sampleClick_def imageWidth_def)
  have y: "newYPercent (currentScale sampleMap) sampleRect sampleClick = 40"
    by (simp add: newYPercent_def sampleMap_def sampleRect_def sampleClick_def imageHeight_def)
  note t = place_new_point_inserts_and_edits [OF a c n, of okStore 30 40 sampleMap sampleClick]
  have calls: "fst (handlePlaceNewPoint okStore 30 40 addingGlass) =
           [AddPoint \<lparr>np_name = ''New Recycling Point'', np_category = ''glass'', np_x = 30,
                      np_y = 40, np_description = ''''\<rparr>]"
    using t by (rule conjunct1)
  have state: "snd (handlePlaceNewPoint okStore 30 40 addingGlass) =
        addingGlass\<lparr>allPoints := allPoints addingGlass @
                        [\<lparr>pt_id = ''new1'', pt_name = ''New Recycling Point'',
                          pt_category = ''glass'', pt_x = 30, pt_y = 40, pt_description = ''''\<rparr>],
                    selectedPoint :=
                        Some \<lparr>pt_id = ''new1'', pt_name = ''New Recycling Point'',
                              pt_category = ''glass'', pt_x = 30, pt_y = 40,
                              pt_description = ''''\<rparr>,
                    editingPointId := Some ''new1'',
                    isAddingNewPointMode := False,
                    categoryForNewPoint := ''''\<rparr>"
    using t [THEN conjunct2, THEN conjunct1, THEN spec, of "''new1''"] d by (rule mp)
  have click: "handleMapClick okStore sampleMap sampleClick addingGlass =
                 handlePlaceNewPoint okStore 30 40 addingGlass"
    using t [THEN conjunct2, THEN conjunct2, THEN spec, of sampleRect] v x y by simp
  have pair: "handleMapClick okStore sampleMap sampleClick addingGlass =
     (fst (handlePlaceNewPoint okStore 30 40 addingGlass),
      snd (handlePlaceNewPoint okStore 30 40 addingGlass))"
    using click by simp
  show ?thesis
    using a c d v x y pair calls state by (simp only: simp_thms)
qed

section \<open>The Escape key\<close>

text \<open>
  Claim C5. Escape does exactly one thing, chosen in this order. If a new point is being added,
  only \<open>isAddingNewPointMode\<close> and \<open>categoryForNewPoint\<close> are reset. Otherwise, if a location is
  being selected, only \<open>isSelectingLocation\<close> is cleared and, when an id is being edited, the
  selected point becomes the entry of the local list with that id. Otherwise, if a point is
  selected and none is being edited, the dialog closes. Otherwise nothing changes.
\<close>

theorem escape_fires_highest_priority_case:
  "(isAddingNewPointMode s \<longrightarrow>
      handleKeyDown ''Escape'' s = s\<lparr>isAddingNewPointMode := False, categoryForNewPoint := ''''\<rparr>)
   \<and> (\<not> isAddingNewPointMode s \<and> isSelectingLocation s \<longrightarrow>
        (\<forall>i. editingPointId s = Some i \<and> i \<noteq> [] \<longrightarrow>
           handleKeyDown ''Escape'' s =
             s\<lparr>isSelectingLocation := False, selectedPoint := findPoint i (allPoints s)\<rparr>)
      \<and> (\<not> truthyId (editingPointId s) \<longrightarrow>
           handleKeyDown ''Escape'' s = s\<lparr>isSelectingLocation := False\<rparr>))
   \<and> (\<not> isAddingNewPointMode s \<and> \<not> isSelectingLocation s
        \<and> selectedPoint s \<noteq> None \<and> \<not> truthyId (editingPointId s) \<longrightarrow>
        handleKeyDown ''Escape'' s =
          s\<lparr>selectedPoint := None, editingPointId := None, isSelectingLocation := False\<rparr>
        \<and> \<not> dialogOpen (handleKeyDown ''Escape'' s))
   \<and> (\<not> isAddingNewPointMode s \<and> \<not> isSelectingLocation s
        \<and> (selectedPoint s = None \<or> truthyId (editingPointId s)) \<longrightarrow>
        handleKeyDown ''Escape'' s = s)"
  by (cases "editingPointId s")
     (auto simp: handleKeyDown_def handleCloseDialog_def dialogOpen_def Let_def)

theorem escape_fires_highest_priority_case_witness:
  "isAddingNewPointMode addingGlass
   \<and> handleKeyDown ''Escape'' addingGlass =
       addingGlass\<lparr>isAddingNewPointMode := False, categoryForNewPoint := ''''\<rparr>
   \<and> \<not> isAddingNewPointMode relocatingGlassBin \<and> isSelectingLocation relocatingGlassBin
   \<and> editingPointId relocatingGlassBin = Some ''p1''
   \<and> handleKeyDown ''Escape'' relocatingGlassBin = editingGlassBin
   \<and> dialogOpen (handleKeyDown ''Escape'' relocatingGlassBin)
   \<and> selectedPoint viewingGlassBin \<noteq> None \<and> \<not> truthyId (editingPointId viewingGlassBin)
   \<and> handleKeyDown ''Escape'' viewingGlassBin =
       viewingGlassBin\<lparr>selectedPoint := None, editingPointId := None,
                        isSelectingLocation := False\<rparr>
   \<and> truthyId (editingPointId editingGlassBin)
   \<and> handleKeyDown ''Escape'' editingGlassBin = editingGlassBin"
proof -
  have a: "isAddingNewPointMode addingGlass"
    by (simp add: addingGlass_def)
  have r: "\<not> isAddingNewPointMode relocatingGlassBin \<and> isSelectingLocation relocatingGlassBin"
    by (simp add: relocatingGlassBin_def editingGlassBin_def)
  have ri: "editingPointId relocatingGlassBin = Some ''p1'' \<and> ''p1'' \<noteq> []"
    by (simp add: relocatingGlassBin_def editingGlassBin_def)
  have rback: "relocatingGlassBin\<lparr>isSelectingLocation := False,
                 selectedPoint := findPoint ''p1'' (allPoints relocatingGlassBin)\<rparr> = editingGlassBin"
    by (simp add: relocatingGlassBin_def editingGlassBin_def findPoint_def glassBin_def)
  have v: "\<not> isAddingNewPointMode viewingGlassBin \<and> \<not> isSelectingLocation viewingGlassBin
        \<and> selectedPoint viewingGlassBin \<noteq> None \<and> \<not> truthyId (editingPointId viewingGlassBin)"
    by (simp add: viewingGlassBin_def editingGlassBin_def)
  have e: "\<not> isAddingNewPointMode editingGlassBin \<and> \<not> isSelectingLocation editingGlassBin
        \<and> (selectedPoint editingGlassBin = None \<or> truthyId (editingPointId editingGlassBin))"
    by (simp add: editingGlassBin_def)
  have et: "truthyId (editingPointId editingGlassBin)"
    by (simp add: editingGlassBin_def)
  note t1 = escape_fires_highest_priority_case [of addingGlass]
  note t2 = escape_fires_highest_priority_case [of relocatingGlassBin]
  note t3 = escape_fires_highest_priority_case [of viewingGlassBin]
  note t4 = escape_fires_highest_priority_case [of editingGlassBin]
  have r1: "handleKeyDown ''Escape'' addingGlass =
       addingGlass\<lparr>isAddingNewPointMode := False, categoryForNewPoint := ''''\<rparr>"
    using t1 a by blast
  have r2: "handleKeyDown ''Escape'' relocatingGlassBin = editingGlassBin"
    using t2 r ri rback by metis
  have r3: "handleKeyDown ''Escape'' viewingGlassBin =
       viewingGlassBin\<lparr>selectedPoint := None, editingPointId := None,
                        isSelectingLocation := False\<rparr>"
    using t3 v by blast
  have r4: "handleKeyDown ''Escape'' editingGlassBin = editingGlassBin"
    using t4 e by blast
  have o: "dialogOpen (handleKeyDown ''Escape'' relocatingGlassBin)"
    unfolding r2 by (simp add: dialogOpen_def editingGlassBin_def)
  show ?thesis
    using a r ri v et r1 r2 r3 r4 o by (simp only: simp_thms)
qed

section \<open>Category filter\<close>

text \<open>
  Claim C6. After any sequence of filter toggles, the visible points are exactly the points of
  the local list whose category is a member of the selected categories, in list order; and
  when no category is selected the visible list is empty.
\<close>

theorem visible_points_are_selected_categories:
  "filteredPoints (applyToggles ts s) =
     filter (\<lambda>p. pt_category p \<in> set (selectedCategories (applyToggles ts s))) (allPoints s)
   \<and> (selectedCategories (applyToggles ts s) = [] \<longrightarrow> filteredPoints (applyToggles ts s) = [])"
  by (simp add: filteredPoints_def applyToggles_allPoints)

theorem visible_points_are_selected_categories_witness:
  "selectedCategories (applyToggles [(''glass'', True), (''paper'', True), (''glass'', False), (''paper'', False)] initialState) = []
   \<and> filteredPoints (applyToggles [(''glass'', True), (''paper'', True), (''glass'', False), (''paper'', False)] (initialState\<lparr>allPoints := [glassBin, paperBin]\<rparr>)) = []
   \<and> filteredPoints (applyToggles [(''glass'', True), (''paper'', True), (''glass'', False)] (initialState\<lparr>allPoints := [glassBin, paperBin]\<rparr>)) = [paperBin]"
  using visible_points_are_selected_categories
          [of "[(''glass'', True), (''paper'', True), (''glass'', False), (''paper'', False)]"
              "initialState\<lparr>allPoints := [glassBin, paperBin]\<rparr>"]
        visible_points_are_selected_categories
          [of "[(''glass'', True), (''paper'', True), (''glass'', False)]"
              "initialState\<lparr>allPoints := [glassBin, paperBin]\<rparr>"]
  by (simp add: initialState_def handleCategoryChange_def glassBin_def paperBin_def)

section \<open>Deleting a point\<close>

text \<open>
  Claim C7. Deleting a point whose id is in the local list calls the store once. When the
  store delete succeeds, the local list loses every entry with that id and the dialog closes:
  the selected point and \<open>editingPointId\<close> are cleared and \<open>isSelectingLocation\<close> is false. When
  it fails, the page state is unchanged.
\<close>

theorem delete_after_remote_success:
  assumes "pointId \<in> pt_id ` set (allPoints s)"
  shows "fst (handleDeletePoint fs pointId s) = [DeletePoint pointId]
       \<and> (\<not> isl (deleteRecyclingPointFromDB fs pointId) \<longrightarrow>
            snd (handleDeletePoint fs pointId s) =
              s\<lparr>allPoints := filter (\<lambda>p. pt_id p \<noteq> pointId) (allPoints s),
                selectedPoint := None, editingPointId := None, isSelectingLocation := False\<rparr>
            \<and> pointId \<notin> pt_id ` set (allPoints (snd (handleDeletePoint fs pointId s)))
            \<and> \<not> dialogOpen (snd (handleDeletePoint fs pointId s)))
       \<and> (isl (deleteRecyclingPointFromDB fs pointId) \<longrightarrow>
            snd (handleDeletePoint fs pointId s) = s)"
proof -
  from assms obtain p where "findPoint pointId (allPoints s) = Some p"
    using findPoint_present by blast
  then show ?thesis
    by (cases "deleteRecyclingPointFromDB fs pointId")
       (auto simp: handleDeletePoint_def handleCloseDialog_def dialogOpen_def)
qed

theorem delete_after_remote_success_witness:
  "''p1'' \<in> pt_id ` set (allPoints editingGlassBin)
   \<and> \<not> isl (deleteRecyclingPointFromDB okStore ''p1'')
   \<and> isl (deleteRecyclingPointFromDB failingStore ''p1'')
   \<and> fst (handleDeletePoint okStore ''p1'' editingGlassBin) = [DeletePoint ''p1'']
   \<and> snd (handleDeletePoint okStore ''p1'' editingGlassBin) =
        editingGlassBin\<lparr>allPoints := [paperBin], selectedPoint := None,
                         editingPointId := None, isSelectingLocation := False\<rparr>
   \<and> fst (handleDeletePoint failingStore ''p1'' editingGlassBin) = [DeletePoint ''p1'']
   \<and> snd (handleDeletePoint failingStore ''p1'' editingGlassBin) = editingGlassBin"
proof -
  have h: "''p1'' \<in> pt_id ` set (allPoints editingGlassBin)"
    by (simp add: editingGlassBin_def glassBin_def)
  have ok: "\<not> isl (deleteRecyclingPointFromDB okStore ''p1'')"
    by (simp add: deleteRecyclingPointFromDB_def okStore_def)
  have ko: "isl (deleteRecyclingPointFromDB failingStore ''p1'')"
    by (simp add: deleteRecyclingPointFromDB_def failingStore_def)
  have f: "filter (\<lambda>p. pt_id p \<noteq> ''p1'') (allPoints editingGlassBin) = [paperBin]"
    by (simp add: editingGlassBin_def glassBin_def paperBin_def)
  show ?thesis
    using h ok ko f
      delete_after_remote_success [OF h, of okStore]
      delete_after_remote_success [OF h, of failingStore]
    by simp
qed

section \<open>The coordinate transform of a map click\<close>

text \<open>
  Claim C8. At zoom factor 1, a click at the centre of the map image gives (50, 50); a click
  at the top-left corner of the image gives (0, 0); every click gives percentages within
  [0, 100], and a click left of, right of, above or below the image gives 0, 100, 0 or 100 on
  that axis. The computation is over the reals; the three results are the same in double
  precision, since 1000 / 2000 and 750 / 1500 are exactly one half and clamping only compares.
\<close>

theorem click_transform_center_corner_clamp:
  "(currentScale m = 1 \<and> clientX e - rect_left rect = imageWidth / 2
      \<and> clientY e - rect_top rect = imageHeight / 2 \<longrightarrow>
      newXPercent (currentScale m) rect e = 50 \<and> newYPercent (currentScale m) rect e = 50)
   \<and> (clientX e = rect_left rect \<and> clientY e = rect_top rect \<longrightarrow>
        newXPercent (currentScale m) rect e = 0 \<and> newYPercent (currentScale m) rect e = 0)
   \<and> (0 \<le> newXPercent (currentScale m) rect e \<and> newXPercent (currentScale m) rect e \<le> 100
      \<and> 0 \<le> newYPercent (currentScale m) rect e \<and> newYPercent (currentScale m) rect e \<le> 100)
   \<and> (0 < currentScale m \<and> clientX e < rect_left rect \<longrightarrow>
        newXPercent (currentScale m) rect e = 0)
   \<and> (0 < currentScale m \<and> rect_left rect + imageWidth * currentScale m < clientX e \<longrightarrow>
        newXPercent (currentScale m) rect e = 100)
   \<and> (0 < currentScale m \<and> clientY e < rect_top rect \<longrightarrow>
        newYPercent (currentScale m) rect e = 0)
   \<and> (0 < currentScale m \<and> rect_top rect + imageHeight * currentScale m < clientY e \<longrightarrow>
        newYPercent (currentScale m) rect e = 100)"
proof (intro conjI impI)
  assume h: "currentScale m = 1 \<and> clientX e - rect_left rect = imageWidth / 2
      \<and> clientY e - rect_top rect = imageHeight / 2"
  then have s: "currentScale m = 1" by (rule conjunct1)
  from h have a: "clientX e - rect_left rect = imageWidth / 2" by blast
  from h have b: "clientY e - rect_top rect = imageHeight / 2" by blast
  show "newXPercent (currentScale m) rect e = 50"
    unfolding s by (rule newXPercent_centre [OF a])
  show "newYPercent (currentScale m) rect e = 50"
    unfolding s by (rule newYPercent_centre [OF b])
next
  assume h: "clientX e = rect_left rect \<and> clientY e = rect_top rect"
  then have a: "clientX e = rect_left rect" and b: "clientY e = rect_top rect" by blast+
  show "newXPercent (currentScale m) rect e = 0"
    using newPercent_corner [OF a b] by (rule conjunct1)
  show "newYPercent (currentScale m) rect e = 0"
    using newPercent_corner [OF a b] by (rule conjunct2)
next
  show "0 \<le> newXPercent (currentScale m) rect e"
    using newXPercent_range by (rule conjunct1)
  show "newXPercent (currentScale m) rect e \<le> 100"
    using newXPercent_range by (rule conjunct2)
  show "0 \<le> newYPercent (currentScale m) rect e"
    using newYPercent_range by (rule conjunct1)
  show "newYPercent (currentScale m) rect e \<le> 100"
    using newYPercent_range by (rule conjunct2)
next
  assume "0 < currentScale m \<and> clientX e < rect_left rect"
  then show "newXPercent (currentScale m) rect e = 0"
    using newXPercent_left by blast
next
  assume "0 < currentScale m \<and> rect_left rect + imageWidth * currentScale m < clientX e"
  then show "newXPercent (currentScale m) rect e = 100"
    using newXPercent_right by blast
next
  assume "0 < currentScale m \<and> clientY e < rect_top rect"
  then show "newYPercent (currentScale m) rect e = 0"
    using newYPercent_top by blast
next
  assume "0 < currentScale m \<and> rect_top rect + imageHeight * currentScale m < clientY e"
  then show "newYPercent (currentScale m) rect e = 100"
    using newYPercent_bottom by blast
qed

theorem click_transform_center_corner_clamp_witness:
  "newXPercent (currentScale sampleMap) sampleRect centreClick = 50
   \<and> newYPercent (currentScale sampleMap) sampleRect centreClick = 50
   \<and> newXPercent (currentScale sampleMap) sampleRect cornerClick = 0
   \<and> newYPercent (currentScale sampleMap) sampleRect cornerClick = 0
   \<and> newXPercent (currentScale sampleMap) sampleRect outsideClick = 0
   \<and> newYPercent (currentScale sampleMap) sampleRect outsideClick = 100"
proof -
  have c: "currentScale sampleMap = 1 \<and> clientX centreClick - rect_left sampleRect = imageWidth / 2
      \<and> clientY centreClick - rect_top sampleRect = imageHeight / 2"
    by (simp add: sampleMap_def centreClick_def sampleRect_def imageWidth_def imageHeight_def)
  have k: "clientX cornerClick = rect_left sampleRect \<and> clientY cornerClick = rect_top sampleRect"
    by (simp add: cornerClick_def sampleRect_def)
  have l: "0 < currentScale sampleMap \<and> clientX outsideClick < rect_left sampleRect"
    by (simp add: sampleMap_def outsideClick_def sampleRect_def)
  have b: "0 < currentScale sampleMap
             \<and> rect_top sampleRect + imageHeight * currentScale sampleMap < clientY outsideClick"
    by (simp add: sampleMap_def outsideClick_def sampleRect_def imageHeight_def)
  note t1 = click_transform_center_corner_clamp [of sampleMap centreClick sampleRect]
  note t2 = click_transform_center_corner_clamp [of sampleMap cornerClick sampleRect]
  note t3 = click_transform_center_corner_clamp [of sampleMap outsideClick sampleRect]
  have r1: "newXPercent (currentScale sampleMap) sampleRect centreClick = 50
            \<and> newYPercent (currentScale sampleMap) sampleRect centreClick = 50"
    using t1 [THEN conjunct1] c by (rule mp)
  have r2: "newXPercent (currentScale sampleMap) sampleRect cornerClick = 0
            \<and> newYPercent (currentScale sampleMap) sampleRect cornerClick = 0"
    using t2 [THEN conjunct2, THEN conjunct1] k by (rule mp)
  have r3: "newXPercent (currentScale sampleMap) sampleRect outsideClick = 0"
    using t3 [THEN conjunct2, THEN conjunct2, THEN conjunct2, THEN conjunct1] l by (rule mp)
  have r4: "newYPercent (currentScale sampleMap) sampleRect outsideClick = 100"
    using t3 [THEN conjunct2, THEN conjunct2, THEN conjunct2, THEN conjunct2, THEN conjunct2,
              THEN conjunct2] b
    by (rule mp)
  from r1 r2 r3 r4 show ?thesis by (simp only: simp_thms)
qed

section \<open>Handlers called with an unknown id\<close>

text \<open>
  Claim C9. Each per-point mutation handler (coordinate, category, name, description, delete),
  called with an id that no point of the local list has, makes no call to the store and
  returns the page state unchanged.
\<close>

theorem absent_id_handlers_do_nothing:
  assumes "pointId \<notin> pt_id ` set (allPoints s)"
  shows "handlePointCoordinateChange fs pointId newX newY s = ([], s)
       \<and> handlePointCategoryChange fs pointId newCategoryId s = ([], s)
       \<and> handlePointNameChange fs pointId newName s = ([], s)
       \<and> handlePointDescriptionChange fs pointId newDescription s = ([], s)
       \<and> handleDeletePoint fs pointId s = ([], s)"
proof -
  from assms have "findPoint pointId (allPoints s) = None"
    by (simp add: findPoint_None_iff)
  then show ?thesis
    by (simp add: handlePointCoordinateChange_def handlePointCategoryChange_def
        handlePointNameChange_def handlePointDescriptionChange_def handleDeletePoint_def)
qed

theorem absent_id_handlers_do_nothing_witness:
  "''p9'' \<notin> pt_id ` set (allPoints editingGlassBin)
   \<and> handlePointCoordinateChange okStore ''p9'' 5 6 editingGlassBin = ([], editingGlassBin)
   \<and> handlePointCategoryChange okStore ''p9'' ''metal'' editingGlassBin = ([], editingGlassBin)
   \<and> handlePointNameChange okStore ''p9'' ''X'' editingGlassBin = ([], editingGlassBin)
   \<and> handlePointDescriptionChange okStore ''p9'' ''Y'' editingGlassBin = ([], editingGlassBin)
   \<and> handleDeletePoint okStore ''p9'' editingGlassBin = ([], editingGlassBin)"
proof -
  have h: "''p9'' \<notin> pt_id ` set (allPoints editingGlassBin)"
    by (simp add: editingGlassBin_def glassBin_def paperBin_def)
  show ?thesis
    using h absent_id_handlers_do_nothing [OF h, of okStore 5 6 "''metal''" "''X''" "''Y''"]
    by simp
qed

section \<open>Normalisation of fetched points\<close>

text \<open>
  Claim C10. When fetch-all succeeds, it returns one point per stored document, in order, with
  the document's id, and: a missing or falsy name becomes "Unnamed Point" and a truthy one is
  kept; a missing category becomes "unknown"; an \<open>x\<close> or \<open>y\<close> that is not a number becomes 0;
  a missing description becomes the empty string; and a numeric \<open>x\<close> or \<open>y\<close> is returned as
  stored, whatever its value, so nothing is clamped on read.
\<close>

theorem fetched_points_are_normalized:
  assumes "getRecyclingPointsFromDB fs = Inr pts"
  shows "\<exists>docs. getDocs fs = Resolved docs
         \<and> list_all2 (\<lambda>d p.
               mp_id p = doc_id d
             \<and> (\<not> truthy (field d ''name'') \<longrightarrow> mp_name p = JString ''Unnamed Point'')
             \<and> (truthy (field d ''name'') \<longrightarrow> mp_name p = field d ''name'')
             \<and> (map_of (doc_data d) ''category'' = None \<longrightarrow> mp_category p = JString ''unknown'')
             \<and> (\<not> typeofNumber (field d ''x'') \<longrightarrow> mp_x p = JNumber 0)
             \<and> (\<not> typeofNumber (field d ''y'') \<longrightarrow> mp_y p = JNumber 0)
             \<and> (map_of (doc_data d) ''description'' = None \<longrightarrow> mp_description p = JString '''')
             \<and> (typeofNumber (field d ''x'') \<longrightarrow> mp_x p = field d ''x'')
             \<and> (typeofNumber (field d ''y'') \<longrightarrow> mp_y p = field d ''y'')) docs pts"
proof -
  from assms obtain docs where d: "getDocs fs = Resolved docs"
    and p: "pts = map mapDocToRecyclingPoint docs"
    by (auto simp: getRecyclingPointsFromDB_def split: if_splits promise.splits)
  have "list_all2 (\<lambda>d p.
               mp_id p = doc_id d
             \<and> (\<not> truthy (field d ''name'') \<longrightarrow> mp_name p = JString ''Unnamed Point'')
             \<and> (truthy (field d ''name'') \<longrightarrow> mp_name p = field d ''name'')
             \<and> (map_of (doc_data d) ''category'' = None \<longrightarrow> mp_category p = JString ''unknown'')
             \<and> (\<not> typeofNumber (field d ''x'') \<longrightarrow> mp_x p = JNumber 0)
             \<and> (\<not> typeofNumber (field d ''y'') \<longrightarrow> mp_y p = JNumber 0)
             \<and> (map_of (doc_data d) ''description'' = None \<longrightarrow> mp_description p = JString '''')
             \<and> (typeofNumber (field d ''x'') \<longrightarrow> mp_x p = field d ''x'')
             \<and> (typeofNumber (field d ''y'') \<longrightarrow> mp_y p = field d ''y'')) docs pts"
    unfolding p
    by (simp add: list_all2_map2 list_all2_same mapDocToRecyclingPoint_def jsOr_def field_def)
  with d show ?thesis by blast
qed

theorem fetched_points_are_normalized_witness:
  "getRecyclingPointsFromDB storeWithDoc =
     Inr [\<lparr>mp_id = ''d1'', mp_name = JString ''Unnamed Point'', mp_category = JString ''unknown'',
           mp_x = JNumber 150, mp_y = JNumber 0, mp_description = JString ''''\<rparr>]
   \<and> \<not> truthy (field sampleDoc ''name'')
   \<and> map_of (doc_data sampleDoc) ''category'' = None
   \<and> typeofNumber (field sampleDoc ''x'')
   \<and> \<not> typeofNumber (field sampleDoc ''y'')
   \<and> map_of (doc_data sampleDoc) ''description'' = None
   \<and> (\<exists>docs. getDocs storeWithDoc = Resolved docs \<and> length docs = 1)"
proof -
  have h: "getRecyclingPointsFromDB storeWithDoc =
     Inr [\<lparr>mp_id = ''d1'', mp_name = JString ''Unnamed Point'', mp_category = JString ''unknown'',
           mp_x = JNumber 150, mp_y = JNumber 0, mp_description = JString ''''\<rparr>]"
    by (simp add: getRecyclingPointsFromDB_def storeWithDoc_def okStore_def sampleDoc_def
        mapDocToRecyclingPoint_def jsOr_def field_def)
  have f: "\<not> truthy (field sampleDoc ''name'') \<and> map_of (doc_data sampleDoc) ''category'' = None
   \<and> typeofNumber (field sampleDoc ''x'') \<and> \<not> typeofNumber (field sampleDoc ''y'')
   \<and> map_of (doc_data sampleDoc) ''description'' = None"
    by (simp add: sampleDoc_def field_def)
  from fetched_points_are_normalized [OF h]
  have "\<exists>docs. getDocs storeWithDoc = Resolved docs \<and> length docs = 1"
    by (auto dest: list_all2_lengthD)
  with h f show ?thesis by simp
qed

end
